theory Spec2Isabelle
  imports Complex_Main
begin

section \<open>Values and tables\<close>

text \<open>
  Python floats. The code under study only compares floats (\<open><\<close> and \<open>>=\<close>); it never
  adds or multiplies them at run time. A finite float is therefore represented by the real
  number it denotes, next to the two infinities and NaN. IEEE comparison with NaN is false
  in both directions, so \<open>float_ge\<close> is not the negation of \<open>float_lt\<close>.
\<close>

datatype pyfloat = Fin real | PInf | NInf | NaN

fun float_lt :: "pyfloat \<Rightarrow> pyfloat \<Rightarrow> bool" where
  "float_lt (Fin a) (Fin b) = (a < b)"
| "float_lt (Fin a) PInf = True"
| "float_lt NInf (Fin b) = True"
| "float_lt NInf PInf = True"
| "float_lt _ _ = False"

fun float_ge :: "pyfloat \<Rightarrow> pyfloat \<Rightarrow> bool" where
  "float_ge NaN _ = False"
| "float_ge _ NaN = False"
| "float_ge a b = (\<not> float_lt a b)"

text \<open>
  The messages of the exceptions the code raises, with the values their f-strings
  interpolate, and the exception classes. \<open>KeyError\<close> carries the missing column name
  or the missing bound; \<open>ExternalError\<close> stands for an exception of a function that is
  not among the sources.
\<close>

datatype dtype =
  DatetimeTZDtype | Datetime64Dtype | Float64Dtype | Int64Dtype | BoolDtype | ObjectDtype
  | GeometryDtype

datatype message =
    EmptyShape nat nat
  | MissingProperties "string list" "string list"
  | DtypeNotTZ string dtype
  | InvalidGeometries
  | NotLineString
  | UnknownActivityMethod string
  | UnknownTransportMethod string
  | CategoriesNotIncreasing
  | NoActiveGeometry

datatype error =
    AssertionError message
  | AttributeError message
  | ValueError message
  | KeyError string
  | KeyErrorBound pyfloat
  | TypeError
  | IndexError
  | OverflowError
  | ExternalError string

text \<open>
  A geometry as far as the code looks at it: \<open>is_valid\<close> and \<open>geom_type\<close>.
\<close>

record geom =
  is_valid :: bool
  geom_type :: string

text \<open>
  A column with its values; the constructor is the dtype. Timestamps are nanoseconds since
  the epoch, \<open>None\<close> is NaT. An object column holds strings or \<open>None\<close>.
\<close>

datatype column =
    DatetimeTZCol "int option list"
  | DatetimeCol "int option list"
  | FloatCol "pyfloat list"
  | IntCol "int list"
  | BoolCol "bool list"
  | ObjectCol "string option list"
  | GeometryCol "geom list"

fun dtype_of :: "column \<Rightarrow> dtype" where
  "dtype_of (DatetimeTZCol _) = DatetimeTZDtype"
| "dtype_of (DatetimeCol _) = Datetime64Dtype"
| "dtype_of (FloatCol _) = Float64Dtype"
| "dtype_of (IntCol _) = Int64Dtype"
| "dtype_of (BoolCol _) = BoolDtype"
| "dtype_of (ObjectCol _) = ObjectDtype"
| "dtype_of (GeometryCol _) = GeometryDtype"

text \<open>
  A (Geo)DataFrame: the row index, the columns in order, and the name of the active
  geometry column when one is set. \<open>shape[0]\<close> is the length of the index.
\<close>

record frame =
  index :: "int list"
  cols :: "(string \<times> column) list"
  geometry_column_name :: "string option"

definition columns :: "frame \<Rightarrow> string list" where
  "columns obj = map fst (cols obj)"

definition shape :: "frame \<Rightarrow> nat \<times> nat" where
  "shape obj = (length (index obj), length (cols obj))"

text \<open>\<open>obj[name]\<close>: the column, or KeyError.\<close>

definition getitem :: "frame \<Rightarrow> string \<Rightarrow> error + column" where
  "getitem obj name = (case map_of (cols obj) name of None \<Rightarrow> Inl (KeyError name) | Some c \<Rightarrow> Inr c)"

text \<open>
  \<open>obj[name] = values\<close>: an existing column is replaced where it stands, a new one is
  appended.
\<close>

fun assign_column :: "(string \<times> column) list \<Rightarrow> string \<Rightarrow> column \<Rightarrow> (string \<times> column) list" where
  "assign_column [] name v = [(name, v)]"
| "assign_column ((n, c) # rest) name v =
     (if n = name then (n, v) # rest else (n, c) # assign_column rest name v)"

definition setitem :: "frame \<Rightarrow> string \<Rightarrow> column \<Rightarrow> frame" where
  "setitem obj name v = obj\<lparr>cols := assign_column (cols obj) name v\<rparr>"

text \<open>
  The heap of table objects: a reference is a position in the list, a new object is
  appended. It makes visible which function writes to the object it was given and which
  one writes to a copy.
\<close>

type_synonym ref = nat
type_synonym heap = "frame list"

section \<open>labelling.py: transport mode prediction\<close>

text \<open>
  A \<open>categories\<close> dict \<open>{upper_boundary: category_name}\<close> in insertion order.
  \<open>categories[bound]\<close> looks the key up.
\<close>

type_synonym categories = "(pyfloat \<times> string) list"

definition default_categories :: categories where
  "default_categories =
     [(Fin (15 / (36 / 10)), ''slow_mobility''),
      (Fin (100 / (36 / 10)), ''motorized_mobility''),
      (PInf, ''fast_mobility'')]"

definition check_categories :: "categories \<Rightarrow> bool" where
  "check_categories cat =
     (let bounds = map fst cat in
      fold (\<lambda>i correct. if float_ge (bounds ! i) (bounds ! (i + 1)) then False else correct)
        [0 ..< length bounds - 1] True)"

text \<open>
  \<open>category_by_speed\<close>: the loop over the keys returns at the first bound above the
  speed; falling off the end of the loop returns \<open>None\<close>.
\<close>

fun category_loop :: "categories \<Rightarrow> pyfloat list \<Rightarrow> pyfloat \<Rightarrow> error + string option" where
  "category_loop categories [] speed = Inr None"
| "category_loop categories (bound # rest) speed =
     (if float_lt speed bound
      then (case map_of categories bound of
              None \<Rightarrow> Inl (KeyErrorBound bound)
            | Some c \<Rightarrow> Inr (Some c))
      else category_loop categories rest speed)"

definition category_by_speed :: "categories \<Rightarrow> pyfloat \<Rightarrow> error + string option" where
  "category_by_speed categories speed = category_loop categories (map fst categories) speed"

text \<open>\<open>Series.apply\<close>: the function on every element in order; an exception ends it.\<close>

fun series_apply :: "('a \<Rightarrow> error + 'b) \<Rightarrow> 'a list \<Rightarrow> error + 'b list" where
  "series_apply f [] = Inr []"
| "series_apply f (x # xs) =
     (case f x of
        Inl e \<Rightarrow> Inl e
      | Inr y \<Rightarrow> (case series_apply f xs of Inl e \<Rightarrow> Inl e | Inr ys \<Rightarrow> Inr (y # ys)))"

text \<open>
  \<open>get_speed_triplegs\<close> is imported from another module: it is a parameter here, a function
  from the table to the \<open>speed\<close> column it computes (or to the exception it raises).
  \<open>triplegs_in.copy()\<close> allocates a new object; the \<open>mode\<close> column is written to the copy.
\<close>

definition predict_transport_mode_simple_coarse ::
  "(frame \<Rightarrow> error + pyfloat list) \<Rightarrow> heap \<Rightarrow> ref \<Rightarrow> categories \<Rightarrow> heap \<times> (error + ref)" where
  "predict_transport_mode_simple_coarse get_speed_triplegs h triplegs_in categories =
     (if \<not> check_categories categories then (h, Inl (ValueError CategoriesNotIncreasing))
      else
        let triplegs = length h; h1 = h @ [h ! triplegs_in] in
        (case get_speed_triplegs (h1 ! triplegs) of
           Inl e \<Rightarrow> (h1, Inl e)
         | Inr speed \<Rightarrow>
             (case series_apply (category_by_speed categories) speed of
                Inl e \<Rightarrow> (h1, Inl e)
              | Inr modes \<Rightarrow>
                  (h1[triplegs := setitem (h1 ! triplegs) ''mode'' (ObjectCol modes)],
                   Inr triplegs))))"

text \<open>
  \<open>predict_transport_mode(triplegs, method, **kwargs)\<close>: the keyword argument
  \<open>categories\<close> is optional.
\<close>

definition predict_transport_mode ::
  "(frame \<Rightarrow> error + pyfloat list) \<Rightarrow> heap \<Rightarrow> ref \<Rightarrow> string \<Rightarrow> categories option
     \<Rightarrow> heap \<times> (error + ref)" where
  "predict_transport_mode get_speed_triplegs h triplegs method kw_categories =
     (if method = ''simple-coarse'' then
        let categories = (case kw_categories of None \<Rightarrow> default_categories | Some c \<Rightarrow> c)
        in predict_transport_mode_simple_coarse get_speed_triplegs h triplegs categories
      else (h, Inl (AttributeError (UnknownTransportMethod method))))"

text \<open>
  Band \<open>k\<close> of the mapping is the first band, in the order of the mapping, whose upper
  bound exceeds the speed.
\<close>

definition first_band :: "categories \<Rightarrow> pyfloat \<Rightarrow> nat \<Rightarrow> bool" where
  "first_band categories speed k =
     (k < length categories \<and> float_lt speed (fst (categories ! k))
      \<and> list_all (\<lambda>j. \<not> float_lt speed (fst (categories ! j))) [0 ..< k])"




text \<open>A speed function that returns the given speed column, whatever the table.\<close>

definition given_speeds :: "pyfloat list \<Rightarrow> frame \<Rightarrow> error + pyfloat list" where
  "given_speeds speed triplegs = Inr speed"

text \<open>The column of a given name in the table a call returned, when it returned one.\<close>

definition returned_column :: "string \<Rightarrow> heap \<times> (error + ref) \<Rightarrow> column option" where
  "returned_column name res =
     (case snd res of Inl e \<Rightarrow> None | Inr r \<Rightarrow> map_of (cols (fst res ! r)) name)"

text \<open>A one-column table of three triplegs, for the concrete scenarios.\<close>

definition three_rows :: frame where
  "three_rows = \<lparr>index = [0, 1, 2], cols = [(''user_id'', IntCol [0, 0, 1])],
     geometry_column_name = None\<rparr>"

section \<open>labelling.py: activity flag\<close>

text \<open>
  \<open>datetime.timedelta(minutes=t)\<close> in microseconds: fractional microseconds are rounded
  half to even, and more than 999999999 days in either direction is an OverflowError.
  The threshold is a finite float, taken as the real number it denotes. Timestamps and
  durations are integers without a bound (pandas keeps them in 64 bits).
\<close>

definition round_half_even :: "real \<Rightarrow> int" where
  "round_half_even x =
     (let f = \<lfloor>x\<rfloor>; d = x - of_int f in
      if d < 1 / 2 then f else if 1 / 2 < d then f + 1 else if even f then f else f + 1)"

definition timedelta_minutes :: "real \<Rightarrow> error + int" where
  "timedelta_minutes minutes =
     (let us = round_half_even (minutes * 60000000); days = us div 86400000000 in
      if 999999999 < \<bar>days\<bar> then Inl OverflowError else Inr us)"

text \<open>
  The difference of two timestamps in nanoseconds; NaT on either side gives NaT.
  The difference of two columns is defined for two datetime columns of the same kind;
  for every other pair of columns the model raises TypeError (pandas raises it at the
  subtraction or at the comparison with the timedelta).
\<close>

fun timestamp_sub :: "int option \<Rightarrow> int option \<Rightarrow> int option" where
  "timestamp_sub (Some a) (Some b) = Some (a - b)"
| "timestamp_sub _ _ = None"

fun series_sub :: "column \<Rightarrow> column \<Rightarrow> error + int option list" where
  "series_sub (DatetimeTZCol a) (DatetimeTZCol b) = Inr (map2 timestamp_sub a b)"
| "series_sub (DatetimeCol a) (DatetimeCol b) = Inr (map2 timestamp_sub a b)"
| "series_sub _ _ = Inl TypeError"

text \<open>
  A duration in nanoseconds against a timedelta in microseconds; a comparison with NaT is
  false.
\<close>

fun timedelta_gt :: "int \<Rightarrow> int option \<Rightarrow> bool" where
  "timedelta_gt us None = False"
| "timedelta_gt us (Some ns) = (us * 1000 < ns)"

text \<open>
  \<open>create_activity_flag\<close> writes the new column to the object it was given (the heap is
  updated at \<open>staypoints\<close>) and returns the same reference. An exception leaves the heap
  as it was.
\<close>

definition create_activity_flag ::
  "heap \<Rightarrow> ref \<Rightarrow> string \<Rightarrow> real \<Rightarrow> string \<Rightarrow> heap \<times> (error + ref)" where
  "create_activity_flag h staypoints method time_threshold activity_column_name =
     (if method = ''time_threshold'' then
        (case getitem (h ! staypoints) ''finished_at'' of
           Inl e \<Rightarrow> (h, Inl e)
         | Inr finished_at \<Rightarrow>
        (case getitem (h ! staypoints) ''started_at'' of
           Inl e \<Rightarrow> (h, Inl e)
         | Inr started_at \<Rightarrow>
        (case series_sub finished_at started_at of
           Inl e \<Rightarrow> (h, Inl e)
         | Inr duration \<Rightarrow>
        (case timedelta_minutes time_threshold of
           Inl e \<Rightarrow> (h, Inl e)
         | Inr us \<Rightarrow>
             (h[staypoints := setitem (h ! staypoints) activity_column_name
                  (BoolCol (map (timedelta_gt us) duration))],
              Inr staypoints)))))
      else (h, Inl (AttributeError (UnknownActivityMethod method))))"

section \<open>triplegs.py: the contract of Triplegs\<close>

definition required_columns :: "string list" where
  "required_columns = [''user_id'', ''started_at'', ''finished_at'']"

text \<open>
  \<open>obj.geometry\<close>: the active geometry column; geopandas raises AttributeError when none
  is set or the column it names is not a geometry column of the table.
\<close>

definition geometry :: "frame \<Rightarrow> error + geom list" where
  "geometry obj =
     (case geometry_column_name obj of
        None \<Rightarrow> Inl (AttributeError NoActiveGeometry)
      | Some g \<Rightarrow>
          (case map_of (cols obj) g of
             Some (GeometryCol gs) \<Rightarrow> Inr gs
           | _ \<Rightarrow> Inl (AttributeError NoActiveGeometry)))"

text \<open>\<open>series.iloc[0]\<close>\<close>

definition iloc0 :: "'a list \<Rightarrow> error + 'a" where
  "iloc0 xs = (case xs of [] \<Rightarrow> Inl IndexError | x # _ \<Rightarrow> Inr x)"

text \<open>\<open>Triplegs._validate\<close>: every \<open>assert\<close> and \<open>raise\<close> in the order of the source.\<close>

definition Triplegs_validate :: "frame \<Rightarrow> bool \<Rightarrow> error + unit" where
  "Triplegs_validate obj validate_geometry =
     (if \<not> 0 < fst (shape obj)
      then Inl (AssertionError (EmptyShape (fst (shape obj)) (snd (shape obj))))
      else if list_ex (\<lambda>c. c \<notin> set (columns obj)) required_columns
      then Inl (AttributeError (MissingProperties required_columns (columns obj)))
      else
        (case getitem obj ''started_at'' of
           Inl e \<Rightarrow> Inl e
         | Inr started_at \<Rightarrow>
        if dtype_of started_at \<noteq> DatetimeTZDtype
        then Inl (AssertionError (DtypeNotTZ ''started_at'' (dtype_of started_at)))
        else
        (case getitem obj ''finished_at'' of
           Inl e \<Rightarrow> Inl e
         | Inr finished_at \<Rightarrow>
        if dtype_of finished_at \<noteq> DatetimeTZDtype
        then Inl (AssertionError (DtypeNotTZ ''finished_at'' (dtype_of finished_at)))
        else if validate_geometry then
          (case geometry obj of
             Inl e \<Rightarrow> Inl e
           | Inr gs \<Rightarrow>
               if \<not> list_all is_valid gs then Inl (AssertionError InvalidGeometries)
               else
                 (case iloc0 gs of
                    Inl e \<Rightarrow> Inl e
                  | Inr g \<Rightarrow>
                      if geom_type g \<noteq> ''LineString'' then Inl (AttributeError NotLineString)
                      else Inr ()))
        else Inr ())))"

text \<open>\<open>Triplegs._check\<close>, in the order of the source; \<open>and\<close> is short-circuit.\<close>

definition Triplegs_check :: "frame \<Rightarrow> bool \<Rightarrow> error + bool" where
  "Triplegs_check obj validate_geometry =
     (if list_ex (\<lambda>c. c \<notin> set (columns obj)) required_columns then Inr False
      else if fst (shape obj) \<le> 0 then Inr False
      else
        (case getitem obj ''started_at'' of
           Inl e \<Rightarrow> Inl e
         | Inr started_at \<Rightarrow>
        if dtype_of started_at \<noteq> DatetimeTZDtype then Inr False
        else
        (case getitem obj ''finished_at'' of
           Inl e \<Rightarrow> Inl e
         | Inr finished_at \<Rightarrow>
        if dtype_of finished_at \<noteq> DatetimeTZDtype then Inr False
        else if validate_geometry then
          (case geometry obj of
             Inl e \<Rightarrow> Inl e
           | Inr gs \<Rightarrow>
               if \<not> list_all is_valid gs then Inr False
               else
                 (case iloc0 gs of
                    Inl e \<Rightarrow> Inl e
                  | Inr g \<Rightarrow> Inr (geom_type g = ''LineString'')))
        else Inr True)))"

text \<open>
  \<open>Triplegs.__init__\<close>: the table is built from the raw data, then validated; the
  instance exists only when \<open>_validate\<close> returns.
\<close>

definition Triplegs_init :: "frame \<Rightarrow> bool \<Rightarrow> error + frame" where
  "Triplegs_init raw validate_geometry =
     (case Triplegs_validate raw validate_geometry of Inl e \<Rightarrow> Inl e | Inr _ \<Rightarrow> Inr raw)"

text \<open>
  The requirements the contract of Triplegs puts on columns, dtypes and rows, as the
  docstring of the class lists them.
\<close>

definition column_dtype :: "frame \<Rightarrow> string \<Rightarrow> dtype option" where
  "column_dtype obj name = map_option dtype_of (map_of (cols obj) name)"

definition violates_contract :: "frame \<Rightarrow> bool" where
  "violates_contract obj =
     (list_ex (\<lambda>c. c \<notin> set (columns obj)) required_columns
      \<or> column_dtype obj ''started_at'' \<noteq> Some DatetimeTZDtype
      \<or> column_dtype obj ''finished_at'' \<noteq> Some DatetimeTZDtype
      \<or> index obj = [])"


section \<open>Typed views and the capability registry\<close>

text \<open>
  Modelled from the spec: the typed-view base (\<open>TrackintelGeoDataFrame\<close>,
  \<open>_wrapped_gdf_method\<close> in \<open>trackintel/model/util.py\<close>) is not among the sources; only
  its tests are. A typed view has a name, a contract and an optional fallback class,
  which is a typed view again. The contract is given by the columns it requires.
\<close>

datatype view = View (view_name: string) (view_required: "string list") (fallback_class: "view option")

text \<open>
  Modelled from the spec: \<open>Contract.check\<close> of a typed view, missing from the sources.
  The required columns are present, and an empty table fails (a typed view requires at
  least one row).
\<close>

definition check_view :: "view \<Rightarrow> frame \<Rightarrow> bool" where
  "check_view v tbl = (index tbl \<noteq> [] \<and> list_all (\<lambda>c. c \<in> set (columns tbl)) (view_required v))"

text \<open>
  Modelled from the spec: the result of an operation of the container before it is
  tagged (a table, or something that is not shaped like a table, such as a single
  column), and the result of a derivation (untouched, a typed view, or the generic
  container with no tag). Both are missing from the sources.
\<close>

datatype derived = NotTabular column | Tabular frame

datatype tagged = Untouched column | TypedView view frame | GenericContainer frame

text \<open>
  Modelled from the spec: steps 2 to 5 of the constructor-selection procedure of Derive,
  missing from the sources. The contract of the view is checked on the result; when it
  holds the result is tagged as that view; when it fails and a fallback class is
  declared, the fallback's contract is tried in the same way; when the chain is
  exhausted the result is the generic container.
\<close>

fun retag :: "view \<Rightarrow> frame \<Rightarrow> tagged" where
  "retag (View name required fallback) tbl =
     (if check_view (View name required fallback) tbl then TypedView (View name required fallback) tbl
      else (case fallback of None \<Rightarrow> GenericContainer tbl | Some f \<Rightarrow> retag f tbl))"

text \<open>
  Modelled from the spec: Derive, missing from the sources. Step 1 returns a result that
  is not a table untouched.
\<close>

definition derive :: "view \<Rightarrow> derived \<Rightarrow> tagged" where
  "derive v result = (case result of NotTabular x \<Rightarrow> Untouched x | Tabular tbl \<Rightarrow> retag v tbl)"

text \<open>
  \<open>drop(columns=name)\<close> of the container library: KeyError when the table has no such
  column; dropping the active geometry column leaves the table without one.
\<close>

definition drop_column :: "frame \<Rightarrow> string \<Rightarrow> error + frame" where
  "drop_column tbl name =
     (if name \<notin> set (columns tbl) then Inl (KeyError name)
      else Inr (tbl\<lparr>cols := filter (\<lambda>p. fst p \<noteq> name) (cols tbl),
                    geometry_column_name :=
                      (if geometry_column_name tbl = Some name then None
                       else geometry_column_name tbl)\<rparr>))"

text \<open>
  Modelled from the spec: dropping a column from an instance of a typed view is a
  derivation, the operation followed by the tagging of its result.
\<close>

definition derive_drop :: "view \<Rightarrow> frame \<Rightarrow> string \<Rightarrow> error + tagged" where
  "derive_drop v tbl name =
     (case drop_column tbl name of Inl e \<Rightarrow> Inl e | Inr t \<Rightarrow> Inr (derive v (Tabular t)))"

text \<open>
  Modelled from the spec: the capability registry (\<open>_register_trackintel_accessor\<close> in
  \<open>trackintel/model/util.py\<close>) is not among the sources. The registry binds names to
  factories and keeps the warnings it has surfaced, each with the name it is about.
\<close>

record 'v registry =
  bindings :: "string \<Rightarrow> (frame \<Rightarrow> 'v) option"
  warnings :: "string list"

text \<open>
  Modelled from the spec: \<open>register(name, factory)\<close>, missing from the sources. A name
  that is already registered surfaces a warning, and the new binding overwrites the
  previous one.
\<close>

definition register :: "string \<Rightarrow> (frame \<Rightarrow> 'v) \<Rightarrow> 'v registry \<Rightarrow> 'v registry" where
  "register name factory reg =
     (if bindings reg name \<noteq> None
      then reg\<lparr>warnings := warnings reg @ [name], bindings := (bindings reg)(name \<mapsto> factory)\<rparr>
      else reg\<lparr>bindings := (bindings reg)(name \<mapsto> factory)\<rparr>)"

text \<open>
  Modelled from the spec: access to a bound name on a container instance, missing from
  the sources. It invokes the factory on the instance; nothing is cached. \<open>None\<close> when
  the name is not bound.
\<close>

definition access :: "'v registry \<Rightarrow> string \<Rightarrow> frame \<Rightarrow> 'v option" where
  "access reg name instance = (case bindings reg name of None \<Rightarrow> None | Some factory \<Rightarrow> Some (factory instance))"

text \<open>
  The contract of \<open>v\<close> is stricter than the contract of \<open>f\<close>: every column that \<open>f\<close>
  requires, \<open>v\<close> requires as well.
\<close>

definition stricter :: "view \<Rightarrow> view \<Rightarrow> bool" where
  "stricter v f = list_all (\<lambda>c. c \<in> set (view_required v)) (view_required f)"

text \<open>A registry with no binding and no warning.\<close>

definition empty_registry :: "'v registry" where
  "empty_registry = \<lparr>bindings = (\<lambda>name. None), warnings = []\<rparr>"

section \<open>Concrete tables\<close>

text \<open>
  A table of three triplegs with the required columns, timezone-aware timestamps and
  LineString geometries; the same table with naive timestamps in \<open>started_at\<close>; and a
  table with no row.
\<close>

definition linestring :: geom where
  "linestring = \<lparr>is_valid = True, geom_type = ''LineString''\<rparr>"

definition example_triplegs :: frame where
  "example_triplegs =
     \<lparr>index = [0, 1, 2],
      cols = [(''user_id'', IntCol [0, 0, 1]),
              (''started_at'', DatetimeTZCol [Some 0, Some 3600000000000, Some 7200000000000]),
              (''finished_at'', DatetimeTZCol [Some 1200000000000, Some 4200000000000, None]),
              (''geometry'', GeometryCol [linestring, linestring, linestring])],
      geometry_column_name = Some ''geometry''\<rparr>"

definition naive_triplegs :: frame where
  "naive_triplegs =
     example_triplegs\<lparr>cols :=
       assign_column (cols example_triplegs) ''started_at''
         (DatetimeCol [Some 0, Some 3600000000000, Some 7200000000000])\<rparr>"

definition empty_triplegs :: frame where
  "empty_triplegs =
     \<lparr>index = [],
      cols = [(''user_id'', IntCol []), (''started_at'', DatetimeTZCol []),
              (''finished_at'', DatetimeTZCol []), (''geometry'', GeometryCol [])],
      geometry_column_name = Some ''geometry''\<rparr>"

text \<open>
  Three triplegs that already carry a \<open>mode\<close> column, and three staypoints of 20
  minutes, 10 minutes and exactly 15 minutes.
\<close>

definition labelled_rows :: frame where
  "labelled_rows =
     \<lparr>index = [0, 1, 2],
      cols = [(''user_id'', IntCol [0, 0, 1]),
              (''mode'', ObjectCol [Some ''car'', Some ''car'', Some ''car''])],
      geometry_column_name = None\<rparr>"

definition example_staypoints :: frame where
  "example_staypoints =
     \<lparr>index = [0, 1, 2],
      cols = [(''user_id'', IntCol [0, 0, 1]),
              (''started_at'', DatetimeTZCol [Some 0, Some 3600000000000, Some 7200000000000]),
              (''finished_at'',
                 DatetimeTZCol [Some 1200000000000, Some 4200000000000, Some 8100000000000])],
      geometry_column_name = None\<rparr>"

text \<open>A heap with the triplegs at reference 0 and the staypoints at reference 1.\<close>

definition example_heap :: heap where
  "example_heap = [example_triplegs, example_staypoints]"

text \<open>
  The fixture of the tests: three position fixes with the columns \<open>user_id\<close>,
  \<open>tracked_at\<close> and \<open>geometry\<close>. Three views after the classes of the tests: the
  contract of \<open>A\<close> requires \<open>user_id\<close> and, for a geometry-bearing table, the
  geometry column; the contract of its fallback class requires \<open>user_id\<close> only; the
  third view is \<open>A\<close> with the fallback class unset.
\<close>

definition point :: geom where
  "point = \<lparr>is_valid = True, geom_type = ''Point''\<rparr>"

definition example_positionfixes :: frame where
  "example_positionfixes =
     \<lparr>index = [0, 1, 2],
      cols = [(''user_id'', IntCol [0, 0, 1]),
              (''tracked_at'', DatetimeTZCol [Some 31536000000000000, Some 31554000000000000,
                                               Some 31647600000000000]),
              (''geometry'', GeometryCol [point, point, point])],
      geometry_column_name = Some ''geometry''\<rparr>"

definition view_AFallback :: view where
  "view_AFallback = View ''AFallback'' [''user_id''] None"

definition view_A :: view where
  "view_A = View ''A'' [''user_id'', ''geometry''] (Some view_AFallback)"

definition view_A_no_fallback :: view where
  "view_A_no_fallback = View ''A'' [''user_id'', ''geometry''] None"

text \<open>Two factories: the one of the tests, which returns its argument, and another one.\<close>

definition foo :: "frame \<Rightarrow> frame" where
  "foo val = val"

definition bar :: "frame \<Rightarrow> frame" where
  "bar val = val\<lparr>geometry_column_name := None\<rparr>"

section \<open>Properties\<close>

subsection \<open>Float comparison and the check of the categories\<close>


lemma float_lt_trans: "float_lt a b \<Longrightarrow> float_lt b c \<Longrightarrow> float_lt a c"
  by (cases a; cases b; cases c) simp_all




lemma check_default_categories: "check_categories default_categories"
  by (simp add: check_categories_def default_categories_def)

text \<open>
  Strictly ascending bounds, each bound below the next one, are written
  \<open>successively float_lt\<close>. Such bounds are ascending at any distance, distinct, and pass
  the check of the code.
\<close>

lemma ascending_nth:
  "successively float_lt bs \<Longrightarrow> i < j \<Longrightarrow> j < length bs \<Longrightarrow> float_lt (bs ! i) (bs ! j)"
proof -
  assume a: "successively float_lt bs" and ij: "i < j" "j < length bs"
  have "transp float_lt"
    by (rule transpI) (rule float_lt_trans)
  then have "sorted_wrt float_lt bs"
    using a by (simp add: successively_conv_sorted_wrt)
  then show ?thesis
    using ij by (simp add: sorted_wrt_iff_nth_less)
qed



subsection \<open>The loop over the bounds and the application to a column\<close>









subsection \<open>The result of the simple-coarse prediction\<close>

lemma simple_coarse_result:
  assumes "check_categories cats"
    and "get_speed_triplegs (h ! r) = Inr speed"
    and "series_apply (category_by_speed cats) speed = Inr modes"
  shows "predict_transport_mode_simple_coarse get_speed_triplegs h r cats =
           (h @ [setitem (h ! r) ''mode'' (ObjectCol modes)], Inr (length h))"
  using assms by (simp add: predict_transport_mode_simple_coarse_def Let_def)

lemma map_of_assign_column: "map_of (assign_column cs name v) name = Some v"
  by (induction cs) auto

lemma map_of_assign_column_other:
  "n \<noteq> name \<Longrightarrow> map_of (assign_column cs name v) n = map_of cs n"
  by (induction cs) auto

lemma default_three_speeds:
  "series_apply (category_by_speed default_categories) [Fin 2, Fin 30, Fin 200] =
     Inr [Some ''slow_mobility'', Some ''fast_mobility'', Some ''fast_mobility'']"
  by (simp add: category_by_speed_def default_categories_def)

text \<open>
  The same modes for any two finite bounds between 2 and 30, hence for the floats that
  \<open>15 / 3.6\<close> and \<open>100 / 3.6\<close> round to.
\<close>

lemma three_speeds_any_rounding:
  "2 < b1 \<Longrightarrow> b1 < b2 \<Longrightarrow> b2 \<le> 30 \<Longrightarrow>
   series_apply
     (category_by_speed
        [(Fin b1, ''slow_mobility''), (Fin b2, ''motorized_mobility''), (PInf, ''fast_mobility'')])
     [Fin 2, Fin 30, Fin 200] =
   Inr [Some ''slow_mobility'', Some ''fast_mobility'', Some ''fast_mobility'']"
  by (simp add: category_by_speed_def)

lemma predict_default_three_speeds:
  "predict_transport_mode (given_speeds [Fin 2, Fin 30, Fin 200]) h r ''simple-coarse'' None =
     (h @ [setitem (h ! r) ''mode''
             (ObjectCol [Some ''slow_mobility'', Some ''fast_mobility'', Some ''fast_mobility''])],
      Inr (length h))"
  unfolding predict_transport_mode_def
  by (simp add: simple_coarse_result [OF check_default_categories _ default_three_speeds]
      given_speeds_def)

lemma returned_column_new:
  "returned_column name (h @ [setitem obj name v], Inr (length h)) = Some v"
  by (simp add: returned_column_def setitem_def map_of_assign_column)

subsection \<open>Construction of Triplegs\<close>

lemma column_dtype_getitem:
  "column_dtype obj name = (case getitem obj name of Inl e \<Rightarrow> None | Inr c \<Rightarrow> Some (dtype_of c))"
  by (simp add: column_dtype_def getitem_def split: option.splits)



lemma construct_naive:
  "Triplegs_init naive_triplegs vg = Inl (AssertionError (DtypeNotTZ ''started_at'' Datetime64Dtype))"
  by (simp add: Triplegs_init_def Triplegs_validate_def naive_triplegs_def example_triplegs_def
      shape_def required_columns_def columns_def getitem_def)

lemma construct_empty:
  "Triplegs_init empty_triplegs vg = Inl (AssertionError (EmptyShape 0 4))"
  by (simp add: Triplegs_init_def Triplegs_validate_def empty_triplegs_def shape_def)

lemma construct_example:
  "Triplegs_init example_triplegs True = Inr example_triplegs"
  by (simp add: Triplegs_init_def Triplegs_validate_def example_triplegs_def
      shape_def required_columns_def columns_def getitem_def geometry_def iloc0_def linestring_def)

lemma construct_succeeds_iff:
  "(\<exists>t. Triplegs_init raw False = Inr t) \<longleftrightarrow> \<not> violates_contract raw"
  unfolding Triplegs_init_def Triplegs_validate_def violates_contract_def column_dtype_getitem shape_def
  by (auto split: sum.splits simp: required_columns_def columns_def getitem_def map_of_eq_None_iff)

subsection \<open>The first band above a speed\<close>


lemma first_band_least:
  assumes asc: "successively float_lt (map fst cats)" and fb: "first_band cats speed k"
    and k': "k' < length cats" and lt': "float_lt speed (fst (cats ! k'))"
  shows "k' = k \<or> float_lt (fst (cats ! k)) (fst (cats ! k'))"
proof -
  have k: "k < length cats" and before: "\<forall>j<k. \<not> float_lt speed (fst (cats ! j))"
    using fb by (simp_all add: first_band_def list_all_iff)
  have "\<not> k' < k" using before lt' by blast
  then have "k' = k \<or> k < k'" by arith
  then show ?thesis
  proof
    assume "k' = k" then show ?thesis by simp
  next
    assume "k < k'"
    then have "float_lt (map fst cats ! k) (map fst cats ! k')"
      using asc k' by (intro ascending_nth) simp_all
    then show ?thesis using k k' by simp
  qed
qed



subsection \<open>Speeds above every bound\<close>







subsection \<open>What the two labelling functions do to the heap\<close>

lemma predict_heap_cases:
  assumes "predict_transport_mode gs h r method kw = (hp, resp)"
  shows "(hp = h \<and> (\<exists>e. resp = Inl e))
       \<or> (hp = h @ [h ! r] \<and> (\<exists>e. resp = Inl e))
       \<or> (\<exists>modes. hp = h @ [setitem (h ! r) ''mode'' (ObjectCol modes)] \<and> resp = Inr (length h))"
  using assms
  by (auto simp: predict_transport_mode_def predict_transport_mode_simple_coarse_def Let_def
      split: if_splits sum.splits)

lemma create_heap_cases:
  assumes "create_activity_flag h s method t name = (hc, resc)"
  shows "(hc = h \<and> (\<exists>e. resc = Inl e))
       \<or> (\<exists>flags. hc = h[s := setitem (h ! s) name (BoolCol flags)] \<and> resc = Inr s)"
  using assms
  by (auto simp: create_activity_flag_def split: if_splits sum.splits)

lemma columns_assign_column:
  "map fst (assign_column cs name v) =
     (if name \<in> set (map fst cs) then map fst cs else map fst cs @ [name])"
  by (induction cs) (auto simp: rev_image_eqI)

lemma setitem_fields:
  "index (setitem obj name v) = index obj"
  "geometry_column_name (setitem obj name v) = geometry_column_name obj"
  "map_of (cols (setitem obj name v)) name = Some v"
  "n \<noteq> name \<Longrightarrow> map_of (cols (setitem obj name v)) n = map_of (cols obj) n"
  "columns (setitem obj name v) =
     (if name \<in> set (columns obj) then columns obj else columns obj @ [name])"
  by (simp_all add: setitem_def map_of_assign_column map_of_assign_column_other
      columns_def columns_assign_column)

lemma timedelta_15: "timedelta_minutes 15 = Inr 900000000"
  by (simp add: timedelta_minutes_def round_half_even_def Let_def)

lemma create_example:
  "create_activity_flag example_heap 1 ''time_threshold'' 15 ''is_activity'' =
     ([example_triplegs,
       setitem example_staypoints ''is_activity'' (BoolCol [True, False, False])], Inr 1)"
  by (simp add: create_activity_flag_def example_heap_def getitem_def example_staypoints_def
      timedelta_15)

lemma predict_example:
  "predict_transport_mode (given_speeds [Fin 2, Fin 30, Fin 200]) example_heap 0
     ''simple-coarse'' None =
   ([example_triplegs, example_staypoints,
     setitem example_triplegs ''mode''
       (ObjectCol [Some ''slow_mobility'', Some ''fast_mobility'', Some ''fast_mobility''])],
    Inr 2)"
  by (simp add: predict_default_three_speeds example_heap_def)

subsection \<open>The activity flag\<close>





subsection \<open>Tagging the result of a derivation\<close>

lemma retag_holds: "check_view v tbl \<Longrightarrow> retag v tbl = TypedView v tbl"
  by (cases v) simp

lemma retag_fallback:
  "\<not> check_view v tbl \<Longrightarrow> fallback_class v = Some f \<Longrightarrow> retag v tbl = retag f tbl"
  by (cases v) simp

lemma retag_exhausted:
  "\<not> check_view v tbl \<Longrightarrow> fallback_class v = None \<Longrightarrow> retag v tbl = GenericContainer tbl"
  by (cases v) simp

lemma drop_column_present:
  "c \<in> set (columns tbl) \<Longrightarrow>
   \<exists>t. drop_column tbl c = Inr t \<and> index t = index tbl
     \<and> set (columns t) = set (columns tbl) - {c}"
  by (auto simp: drop_column_def columns_def)

lemma check_view_required:
  "check_view v tbl \<Longrightarrow> c \<in> set (view_required v) \<Longrightarrow> c \<in> set (columns tbl)"
  by (simp add: check_view_def list_all_iff)

lemma check_view_after_drop:
  assumes "check_view v tbl" and "index t = index tbl"
    and "set (columns t) = set (columns tbl) - {c}"
  shows "check_view v t \<longleftrightarrow> c \<notin> set (view_required v)"
  using assms by (auto simp: check_view_def list_all_iff)

lemma stricter_check_view: "stricter v f \<Longrightarrow> check_view v tbl \<Longrightarrow> check_view f tbl"
  by (auto simp: stricter_def check_view_def list_all_iff)

lemma positionfixes_A: "check_view view_A example_positionfixes"
  by (simp add: check_view_def view_A_def example_positionfixes_def columns_def)

lemma positionfixes_A_no_fallback: "check_view view_A_no_fallback example_positionfixes"
  by (simp add: check_view_def view_A_no_fallback_def example_positionfixes_def columns_def)

lemma view_A_facts:
  "fallback_class view_A = Some view_AFallback" "stricter view_A view_AFallback"
  "''geometry'' \<in> set (view_required view_A)" "''geometry'' \<notin> set (view_required view_AFallback)"
  "''tracked_at'' \<notin> set (view_required view_A)"
  "''tracked_at'' \<in> set (columns example_positionfixes)"
  "fallback_class view_A_no_fallback = None"
  "''geometry'' \<in> set (view_required view_A_no_fallback)"
  by (simp_all add: view_A_def view_AFallback_def view_A_no_fallback_def stricter_def
      example_positionfixes_def columns_def)

lemma drop_user_id_generic:
  "\<exists>t. derive_drop view_A example_positionfixes ''user_id'' = Inr (GenericContainer t)"
  by (simp add: derive_drop_def drop_column_def derive_def view_A_def view_AFallback_def
      example_positionfixes_def columns_def check_view_def)

section \<open>The claims\<close>

text \<open>
  C1 (as amended). For the speed values [2.0, 30.0, 200.0] m/s, the method
  \<open>simple-coarse\<close> and the default bands, \<open>predict_transport_mode\<close> assigns the modes
  slow_mobility, fast_mobility, fast_mobility to the three rows: 2.0 is below the first
  bound 15/3.6, and 30.0 and 200.0 are below the infinite bound only. The bounds 15/3.6
  and 100/3.6 stand for the floats next to them; no speed of the scenario is close
  enough to a bound for the rounding to matter.
\<close>

theorem default_bands_three_speeds:
  "returned_column ''mode''
     (predict_transport_mode (given_speeds [Fin 2, Fin 30, Fin 200]) h r ''simple-coarse'' None) =
   Some (ObjectCol [Some ''slow_mobility'', Some ''fast_mobility'', Some ''fast_mobility''])"
  by (simp only: predict_default_three_speeds returned_column_new)

theorem default_bands_three_speeds_witness:
  "returned_column ''mode''
     (predict_transport_mode (given_speeds [Fin 2, Fin 30, Fin 200]) [three_rows] 0
        ''simple-coarse'' None) =
   Some (ObjectCol [Some ''slow_mobility'', Some ''fast_mobility'', Some ''fast_mobility''])"
  by (rule default_bands_three_speeds)

text \<open>
  C1 as stated fails: the first row is not classified as motorized_mobility.
\<close>

theorem default_bands_three_speeds_counterexample:
  "returned_column ''mode''
     (predict_transport_mode (given_speeds [Fin 2, Fin 30, Fin 200]) [three_rows] 0
        ''simple-coarse'' None) \<noteq>
   Some (ObjectCol [Some ''motorized_mobility'', Some ''fast_mobility'', Some ''fast_mobility''])"
proof -
  have "returned_column ''mode''
     (predict_transport_mode (given_speeds [Fin 2, Fin 30, Fin 200]) [three_rows] 0
        ''simple-coarse'' None) =
    Some (ObjectCol [Some ''slow_mobility'', Some ''fast_mobility'', Some ''fast_mobility''])"
    by (simp only: predict_default_three_speeds returned_column_new)
  then show ?thesis by simp
qed

text \<open>
  C2. For every table and every value of \<open>validate_geometry\<close>, \<open>Triplegs._check\<close>
  returns True exactly when \<open>Triplegs._validate\<close> returns without raising: the two
  express the same predicate.
\<close>

theorem check_iff_validate:
  "Triplegs_check obj validate_geometry = Inr True \<longleftrightarrow>
   Triplegs_validate obj validate_geometry = Inr ()"
  unfolding Triplegs_check_def Triplegs_validate_def
  by (auto split: sum.splits)

theorem check_iff_validate_witness:
  "Triplegs_check example_triplegs True = Inr True \<and>
   Triplegs_validate example_triplegs True = Inr ()"
proof -
  have "Triplegs_check example_triplegs True = Inr True"
    by (simp add: Triplegs_check_def example_triplegs_def required_columns_def columns_def
        shape_def getitem_def geometry_def iloc0_def linestring_def)
  then show ?thesis
    using check_iff_validate [of example_triplegs True] by simp
qed

text \<open>
  C3. For every instance of a typed view whose class declares a fallback class,
  dropping a column required only by the stricter contract (and not by the contract of
  the fallback) yields a result tagged as the fallback class, and dropping a column
  required by neither contract yields a result of the original class; for every instance
  of a typed view with no fallback class, dropping a required column yields the generic
  container. An instance satisfies the contract of its view; that the contract of the
  view is the stricter one is \<open>stricter\<close>.
\<close>

theorem drop_column_retags:
  assumes inst: "check_view v tbl"
  shows "(fallback_class v = Some f \<and> stricter v f
            \<and> c \<in> set (view_required v) \<and> c \<notin> set (view_required f) \<longrightarrow>
            (\<exists>t. drop_column tbl c = Inr t \<and> derive_drop v tbl c = Inr (TypedView f t)))
       \<and> (c \<in> set (columns tbl) \<and> c \<notin> set (view_required v) \<longrightarrow>
            (\<exists>t. drop_column tbl c = Inr t \<and> derive_drop v tbl c = Inr (TypedView v t)))
       \<and> (fallback_class v = None \<and> c \<in> set (view_required v) \<longrightarrow>
            (\<exists>t. drop_column tbl c = Inr t \<and> derive_drop v tbl c = Inr (GenericContainer t)))"
proof (intro conjI impI)
  assume a: "fallback_class v = Some f \<and> stricter v f
            \<and> c \<in> set (view_required v) \<and> c \<notin> set (view_required f)"
  then have "c \<in> set (columns tbl)"
    using inst check_view_required by blast
  then obtain t where t: "drop_column tbl c = Inr t" "index t = index tbl"
    "set (columns t) = set (columns tbl) - {c}"
    using drop_column_present by blast
  have "\<not> check_view v t"
    using check_view_after_drop [OF inst t(2,3)] a by simp
  moreover have "check_view f t"
    using check_view_after_drop [OF stricter_check_view [OF _ inst] t(2,3)] a by simp
  ultimately have "retag v t = TypedView f t"
    using a by (simp add: retag_fallback retag_holds)
  then show "\<exists>t. drop_column tbl c = Inr t \<and> derive_drop v tbl c = Inr (TypedView f t)"
    using t(1) by (simp add: derive_drop_def derive_def)
next
  assume a: "c \<in> set (columns tbl) \<and> c \<notin> set (view_required v)"
  then obtain t where t: "drop_column tbl c = Inr t" "index t = index tbl"
    "set (columns t) = set (columns tbl) - {c}"
    using drop_column_present by blast
  have "check_view v t"
    using check_view_after_drop [OF inst t(2,3)] a by simp
  then show "\<exists>t. drop_column tbl c = Inr t \<and> derive_drop v tbl c = Inr (TypedView v t)"
    using t(1) by (simp add: derive_drop_def derive_def retag_holds)
next
  assume a: "fallback_class v = None \<and> c \<in> set (view_required v)"
  then have "c \<in> set (columns tbl)"
    using inst check_view_required by blast
  then obtain t where t: "drop_column tbl c = Inr t" "index t = index tbl"
    "set (columns t) = set (columns tbl) - {c}"
    using drop_column_present by blast
  have "\<not> check_view v t"
    using check_view_after_drop [OF inst t(2,3)] a by simp
  then show "\<exists>t. drop_column tbl c = Inr t \<and> derive_drop v tbl c = Inr (GenericContainer t)"
    using t(1) a by (simp add: derive_drop_def derive_def retag_exhausted)
qed

theorem drop_column_retags_witness:
  "check_view view_A example_positionfixes
   \<and> fallback_class view_A = Some view_AFallback \<and> stricter view_A view_AFallback
   \<and> ''geometry'' \<in> set (view_required view_A)
   \<and> ''geometry'' \<notin> set (view_required view_AFallback)
   \<and> (\<exists>t. drop_column example_positionfixes ''geometry'' = Inr t
         \<and> derive_drop view_A example_positionfixes ''geometry'' = Inr (TypedView view_AFallback t))
   \<and> ''tracked_at'' \<in> set (columns example_positionfixes)
   \<and> ''tracked_at'' \<notin> set (view_required view_A)
   \<and> (\<exists>t. drop_column example_positionfixes ''tracked_at'' = Inr t
         \<and> derive_drop view_A example_positionfixes ''tracked_at'' = Inr (TypedView view_A t))
   \<and> check_view view_A_no_fallback example_positionfixes
   \<and> fallback_class view_A_no_fallback = None
   \<and> ''geometry'' \<in> set (view_required view_A_no_fallback)
   \<and> (\<exists>t. drop_column example_positionfixes ''geometry'' = Inr t
         \<and> derive_drop view_A_no_fallback example_positionfixes ''geometry'' =
             Inr (GenericContainer t))"
  using drop_column_retags [OF positionfixes_A, of view_AFallback "''geometry''"]
    drop_column_retags [OF positionfixes_A, of view_AFallback "''tracked_at''"]
    drop_column_retags [OF positionfixes_A_no_fallback, of view_AFallback "''geometry''"]
    positionfixes_A positionfixes_A_no_fallback view_A_facts
  by blast







text \<open>
  C7. Registering the same name twice emits exactly one warning on the second
  registration, and the second registration takes effect: access to the name on an
  instance uses the second factory. The first registration of a name that was not bound
  emits none, so that the two registrations leave exactly one warning.
\<close>

theorem register_twice:
  "warnings (register name second (register name first reg)) =
     warnings (register name first reg) @ [name]
   \<and> access (register name second (register name first reg)) name instance = Some (second instance)
   \<and> (bindings reg name = None \<longrightarrow>
        warnings (register name second (register name first reg)) = warnings reg @ [name])"
  by (simp add: register_def access_def)

theorem register_twice_witness:
  "bindings (empty_registry :: frame registry) ''foo'' = None
   \<and> warnings (register ''foo'' bar (register ''foo'' foo empty_registry)) = [''foo'']
   \<and> access (register ''foo'' bar (register ''foo'' foo empty_registry)) ''foo''
        example_positionfixes = Some (bar example_positionfixes)"
proof -
  have fresh: "bindings (empty_registry :: frame registry) ''foo'' = None"
    and none: "warnings (empty_registry :: frame registry) = []"
    by (simp_all add: empty_registry_def)
  note twice = register_twice [of "''foo''" bar foo empty_registry example_positionfixes]
  have "warnings (register ''foo'' bar (register ''foo'' foo empty_registry)) =
      warnings (empty_registry :: frame registry) @ [''foo'']"
    using twice fresh by blast
  then have "warnings (register ''foo'' bar (register ''foo'' foo empty_registry)) = [''foo'']"
    using none by simp
  moreover have "access (register ''foo'' bar (register ''foo'' foo empty_registry)) ''foo''
        example_positionfixes = Some (bar example_positionfixes)"
    using twice by blast
  ultimately show ?thesis
    using fresh by blast
qed

text \<open>
  C8. For every method name other than the supported one, the analytics functions raise
  a user-input error and neither modify nor return the table: \<open>predict_transport_mode\<close>
  raises AttributeError for any method other than \<open>simple-coarse\<close>, and
  \<open>create_activity_flag\<close> for any method other than \<open>time_threshold\<close>; the heap is as
  it was.
\<close>

theorem unsupported_method_raises:
  "(method \<noteq> ''simple-coarse'' \<longrightarrow>
      predict_transport_mode get_speed_triplegs h triplegs method kw_categories =
        (h, Inl (AttributeError (UnknownTransportMethod method))))
   \<and> (method' \<noteq> ''time_threshold'' \<longrightarrow>
      create_activity_flag h staypoints method' time_threshold activity_column_name =
        (h, Inl (AttributeError (UnknownActivityMethod method'))))"
  by (simp add: predict_transport_mode_def create_activity_flag_def)

theorem unsupported_method_raises_witness:
  "''fancy'' \<noteq> ''simple-coarse'' \<and> ''fancy'' \<noteq> ''time_threshold''
   \<and> predict_transport_mode (given_speeds [Fin 2, Fin 30, Fin 200])
        [example_triplegs, example_staypoints] 0 ''fancy'' None =
       ([example_triplegs, example_staypoints],
        Inl (AttributeError (UnknownTransportMethod ''fancy'')))
   \<and> create_activity_flag [example_triplegs, example_staypoints] 1 ''fancy'' 15 ''is_activity'' =
       ([example_triplegs, example_staypoints],
        Inl (AttributeError (UnknownActivityMethod ''fancy'')))"
  using unsupported_method_raises [of "''fancy''" "given_speeds [Fin 2, Fin 30, Fin 200]"
      "[example_triplegs, example_staypoints]" 0 None "''fancy''" 1 15 "''is_activity''"]
  by simp

text \<open>
  C9 (as amended). \<open>predict_transport_mode\<close> never mutates the table it is given: every
  object of the heap is after the call what it was before, and the table returned is a
  new object, the copy, with the index of the input, with every column other than \<open>mode\<close>
  as in the input, and with the \<open>mode\<close> column set (appended when the input has no such
  column, replaced in the copy when it has one). By contrast \<open>create_activity_flag\<close>
  writes the activity column to the object it was given and returns the same reference;
  no other object changes.
\<close>

theorem copy_versus_in_place:
  assumes p: "predict_transport_mode get_speed_triplegs h triplegs method kw_categories = (hp, resp)"
    and c: "create_activity_flag h staypoints method' time_threshold activity_column_name = (hc, resc)"
    and v: "staypoints < length h"
  shows "(\<forall>r. r < length h \<longrightarrow> hp ! r = h ! r)
       \<and> (\<forall>result. resp = Inr result \<longrightarrow>
             result = length h \<and> length hp = length h + 1
             \<and> index (hp ! result) = index (h ! triplegs)
             \<and> geometry_column_name (hp ! result) = geometry_column_name (h ! triplegs)
             \<and> (\<forall>n. n \<noteq> ''mode'' \<longrightarrow>
                   map_of (cols (hp ! result)) n = map_of (cols (h ! triplegs)) n)
             \<and> (\<exists>modes. map_of (cols (hp ! result)) ''mode'' = Some (ObjectCol modes))
             \<and> columns (hp ! result) =
                 (if ''mode'' \<in> set (columns (h ! triplegs)) then columns (h ! triplegs)
                  else columns (h ! triplegs) @ [''mode'']))
       \<and> (\<forall>result. resc = Inr result \<longrightarrow>
             result = staypoints \<and> length hc = length h
             \<and> (\<forall>r. r \<noteq> staypoints \<longrightarrow> hc ! r = h ! r)
             \<and> (\<exists>flags. hc ! staypoints =
                   setitem (h ! staypoints) activity_column_name (BoolCol flags)))"
proof (intro conjI)
  show "\<forall>r. r < length h \<longrightarrow> hp ! r = h ! r"
    using predict_heap_cases [OF p] by (auto simp: nth_append)
next
  show "\<forall>result. resp = Inr result \<longrightarrow>
             result = length h \<and> length hp = length h + 1
             \<and> index (hp ! result) = index (h ! triplegs)
             \<and> geometry_column_name (hp ! result) = geometry_column_name (h ! triplegs)
             \<and> (\<forall>n. n \<noteq> ''mode'' \<longrightarrow>
                   map_of (cols (hp ! result)) n = map_of (cols (h ! triplegs)) n)
             \<and> (\<exists>modes. map_of (cols (hp ! result)) ''mode'' = Some (ObjectCol modes))
             \<and> columns (hp ! result) =
                 (if ''mode'' \<in> set (columns (h ! triplegs)) then columns (h ! triplegs)
                  else columns (h ! triplegs) @ [''mode''])"
  proof (intro allI impI)
    fix result assume "resp = Inr result"
    then obtain modes where hp: "hp = h @ [setitem (h ! triplegs) ''mode'' (ObjectCol modes)]"
      and res: "result = length h"
      using predict_heap_cases [OF p] by auto
    have new: "hp ! result = setitem (h ! triplegs) ''mode'' (ObjectCol modes)"
      using hp res by simp
    show "result = length h \<and> length hp = length h + 1
             \<and> index (hp ! result) = index (h ! triplegs)
             \<and> geometry_column_name (hp ! result) = geometry_column_name (h ! triplegs)
             \<and> (\<forall>n. n \<noteq> ''mode'' \<longrightarrow>
                   map_of (cols (hp ! result)) n = map_of (cols (h ! triplegs)) n)
             \<and> (\<exists>modes. map_of (cols (hp ! result)) ''mode'' = Some (ObjectCol modes))
             \<and> columns (hp ! result) =
                 (if ''mode'' \<in> set (columns (h ! triplegs)) then columns (h ! triplegs)
                  else columns (h ! triplegs) @ [''mode''])"
      unfolding new using res hp by (simp add: setitem_fields)
  qed
next
  show "\<forall>result. resc = Inr result \<longrightarrow>
             result = staypoints \<and> length hc = length h
             \<and> (\<forall>r. r \<noteq> staypoints \<longrightarrow> hc ! r = h ! r)
             \<and> (\<exists>flags. hc ! staypoints =
                   setitem (h ! staypoints) activity_column_name (BoolCol flags))"
  proof (intro allI impI)
    fix result assume "resc = Inr result"
    then obtain flags where hc: "hc = h[staypoints := setitem (h ! staypoints) activity_column_name (BoolCol flags)]"
      and res: "result = staypoints"
      using create_heap_cases [OF c] by auto
    show "result = staypoints \<and> length hc = length h
             \<and> (\<forall>r. r \<noteq> staypoints \<longrightarrow> hc ! r = h ! r)
             \<and> (\<exists>flags. hc ! staypoints =
                   setitem (h ! staypoints) activity_column_name (BoolCol flags))"
      using res hc v by auto
  qed
qed

theorem copy_versus_in_place_witness:
  "1 < length example_heap
   \<and> predict_transport_mode (given_speeds [Fin 2, Fin 30, Fin 200]) example_heap 0
        ''simple-coarse'' None =
       ([example_triplegs, example_staypoints,
         setitem example_triplegs ''mode''
           (ObjectCol [Some ''slow_mobility'', Some ''fast_mobility'', Some ''fast_mobility''])],
        Inr 2)
   \<and> create_activity_flag example_heap 1 ''time_threshold'' 15 ''is_activity'' =
       ([example_triplegs,
         setitem example_staypoints ''is_activity'' (BoolCol [True, False, False])], Inr 1)
   \<and> [example_triplegs, example_staypoints,
       setitem example_triplegs ''mode''
         (ObjectCol [Some ''slow_mobility'', Some ''fast_mobility'', Some ''fast_mobility''])] ! 0 =
      example_heap ! 0"
proof -
  have v: "1 < length example_heap"
    by (simp add: example_heap_def)
  note all = copy_versus_in_place [OF predict_example create_example v]
  have "[example_triplegs, example_staypoints,
       setitem example_triplegs ''mode''
         (ObjectCol [Some ''slow_mobility'', Some ''fast_mobility'', Some ''fast_mobility''])] ! 0 =
      example_heap ! 0"
  proof -
    have "\<forall>r. r < length example_heap \<longrightarrow>
       [example_triplegs, example_staypoints,
        setitem example_triplegs ''mode''
         (ObjectCol [Some ''slow_mobility'', Some ''fast_mobility'', Some ''fast_mobility''])] ! r =
       example_heap ! r"
      using all by (rule conjunct1)
    moreover have "0 < length example_heap"
      by (simp add: example_heap_def)
    ultimately show ?thesis by blast
  qed
  then show ?thesis
    using v predict_example create_example by simp
qed

text \<open>
  C9 as stated, with every pre-existing column unchanged in the result, fails for a table
  that already has a \<open>mode\<close> column: the result carries the predicted modes in its place.
\<close>

theorem copy_versus_in_place_counterexample:
  "map_of (cols ([labelled_rows] ! 0)) ''mode'' \<noteq> None
   \<and> returned_column ''mode''
        (predict_transport_mode (given_speeds [Fin 2, Fin 30, Fin 200]) [labelled_rows] 0
           ''simple-coarse'' None) \<noteq>
       map_of (cols ([labelled_rows] ! 0)) ''mode''"
proof -
  have "returned_column ''mode''
        (predict_transport_mode (given_speeds [Fin 2, Fin 30, Fin 200]) [labelled_rows] 0
           ''simple-coarse'' None) =
       Some (ObjectCol [Some ''slow_mobility'', Some ''fast_mobility'', Some ''fast_mobility''])"
    by (simp only: predict_default_three_speeds returned_column_new)
  then show ?thesis
    by (simp add: labelled_rows_def)
qed




end
